theory Spec2Isabelle
  imports Complex_Main
begin

section \<open>Data model\<close>

text \<open>
  The TypeScript numbers of the viewer are IEEE doubles. They are modelled as
  the real numbers: every statement below is about the exact arithmetic that the
  source formulas denote, not about rounding. A triple \<^verbatim>\<open>[number, number, number]\<close>
  is a triple of reals.
\<close>

type_synonym vec3 = "real \<times> real \<times> real"

fun vx :: "vec3 \<Rightarrow> real" where
  "vx (x, y, z) = x"

fun vy :: "vec3 \<Rightarrow> real" where
  "vy (x, y, z) = y"

fun vz :: "vec3 \<Rightarrow> real" where
  "vz (x, y, z) = z"

text \<open>
  Modelled from the spec: the declaration of \<^verbatim>\<open>ModelData\<close> (\<^verbatim>\<open>./types\<close>) is not
  among the sources. The fields are those of the spec's ModelRecord (identifier,
  display name, source reference, position, rotation, scale, visibility flag,
  selection flag, opacity) under the names and with the types that the records of
  \<^verbatim>\<open>INITIAL_MODELS\<close> give them. The field \<^verbatim>\<open>id\<close> is called \<open>model_id\<close>, since
  \<open>id\<close> is the identity function of HOL.
\<close>

record ModelData =
  model_id :: string
  name :: string
  url :: string
  position :: vec3
  rotation :: vec3
  scale :: vec3
  visible :: bool
  selected :: bool
  opacity :: real

text \<open>
  \<^verbatim>\<open>Partial<ModelData>\<close>: every field may be present or absent.
\<close>

record ModelPatch =
  p_id :: "string option"
  p_name :: "string option"
  p_url :: "string option"
  p_position :: "vec3 option"
  p_rotation :: "vec3 option"
  p_scale :: "vec3 option"
  p_visible :: "bool option"
  p_selected :: "bool option"
  p_opacity :: "real option"

definition no_updates :: ModelPatch where
  "no_updates = \<lparr> p_id = None, p_name = None, p_url = None, p_position = None,
     p_rotation = None, p_scale = None, p_visible = None, p_selected = None,
     p_opacity = None \<rparr>"

text \<open>
  The object spread \<^verbatim>\<open>{ ...m, ...updates }\<close>: a field present in \<^verbatim>\<open>updates\<close>
  replaces the field of \<^verbatim>\<open>m\<close>, an absent one leaves it.
\<close>

definition spread :: "ModelData \<Rightarrow> ModelPatch \<Rightarrow> ModelData" where
  "spread m u =
     \<lparr> model_id = (case p_id u of None \<Rightarrow> model_id m | Some v \<Rightarrow> v),
       name = (case p_name u of None \<Rightarrow> name m | Some v \<Rightarrow> v),
       url = (case p_url u of None \<Rightarrow> url m | Some v \<Rightarrow> v),
       position = (case p_position u of None \<Rightarrow> position m | Some v \<Rightarrow> v),
       rotation = (case p_rotation u of None \<Rightarrow> rotation m | Some v \<Rightarrow> v),
       scale = (case p_scale u of None \<Rightarrow> scale m | Some v \<Rightarrow> v),
       visible = (case p_visible u of None \<Rightarrow> visible m | Some v \<Rightarrow> v),
       selected = (case p_selected u of None \<Rightarrow> selected m | Some v \<Rightarrow> v),
       opacity = (case p_opacity u of None \<Rightarrow> opacity m | Some v \<Rightarrow> v) \<rparr>"

section \<open>The registry and its two entry points (App)\<close>

text \<open>
  The state of \<^verbatim>\<open>App\<close>: the list \<^verbatim>\<open>models\<close> and \<^verbatim>\<open>selectedId\<close>
  (\<^verbatim>\<open>string | null\<close>).
\<close>

record AppState =
  models :: "ModelData list"
  selectedId :: "string option"

text \<open>
  \<^verbatim>\<open>handleSelectModel(id)\<close>: \<^verbatim>\<open>setSelectedId(id)\<close> and
  \<^verbatim>\<open>setModels(prev => prev.map(m => ({...m, selected: m.id === id})))\<close>.
\<close>

definition handleSelectModel :: "string option \<Rightarrow> AppState \<Rightarrow> AppState" where
  "handleSelectModel i st =
     \<lparr> models = map (\<lambda>m. m\<lparr>selected := (Some (model_id m) = i)\<rparr>) (models st),
       selectedId = i \<rparr>"

text \<open>
  \<^verbatim>\<open>handleUpdateModel(id, updates)\<close>:
  \<^verbatim>\<open>setModels(prev => prev.map(m => m.id === id ? {...m, ...updates} : m))\<close>.
  First on the list, then on the state of \<^verbatim>\<open>App\<close>.
\<close>

definition updateModels :: "string \<Rightarrow> ModelPatch \<Rightarrow> ModelData list \<Rightarrow> ModelData list" where
  "updateModels i u ms = map (\<lambda>m. if model_id m = i then spread m u else m) ms"

definition handleUpdateModel :: "string \<Rightarrow> ModelPatch \<Rightarrow> AppState \<Rightarrow> AppState" where
  "handleUpdateModel i u st = st\<lparr>models := updateModels i u (models st)\<rparr>"

text \<open>
  \<^verbatim>\<open>INITIAL_MODELS\<close>. The two URLs come from \<^verbatim>\<open>./constants\<close>, which is not
  part of the sources at hand: they are parameters. The names are the UTF-8 bytes of
  the source's literals.
\<close>

definition name_model_1 :: string where
  "name_model_1 = [CHR 0xE6, CHR 0xA8, CHR 0xA1, CHR 0xE5, CHR 0x9E, CHR 0x8B,
     CHR 0xE4, CHR 0xB8, CHR 0x80]"

definition name_model_2 :: string where
  "name_model_2 = [CHR 0xE6, CHR 0xA8, CHR 0xA1, CHR 0xE5, CHR 0x9E, CHR 0x8B,
     CHR 0xE4, CHR 0xBA, CHR 0x8C]"

definition INITIAL_MODELS :: "string \<Rightarrow> string \<Rightarrow> ModelData list" where
  "INITIAL_MODELS url1 url2 =
     [ \<lparr> model_id = ''model-1'', name = name_model_1, url = url1,
         position = (- 3333 / 1000, 1, 0), rotation = (0, 0, 0), scale = (10, 10, 10),
         visible = True, selected = False, opacity = 1 \<rparr>,
       \<lparr> model_id = ''model-2'', name = name_model_2, url = url2,
         position = (3333 / 1000, 1, 0), rotation = (0, 0, 0), scale = (10, 10, 10),
         visible = True, selected = False, opacity = 1 \<rparr> ]"

definition initial_state :: "string \<Rightarrow> string \<Rightarrow> AppState" where
  "initial_state url1 url2 = \<lparr> models = INITIAL_MODELS url1 url2, selectedId = None \<rparr>"

section \<open>Overlap detection (Scene)\<close>

text \<open>
  \<^verbatim>\<open>THREE.Vector3\<close> and \<^verbatim>\<open>THREE.Box3\<close> belong to the rendering library
  (three.js), which the repository uses and does not contain. The operations the
  effect calls are written as the library defines them:
  \<^verbatim>\<open>multiply(v)\<close> multiplies component by component;
  \<^verbatim>\<open>setFromCenterAndSize(center, size)\<close> sets
  \<^verbatim>\<open>halfSize = size * 0.5; min = center - halfSize; max = center + halfSize\<close>;
  \<^verbatim>\<open>intersectsBox(box)\<close> returns
  \<^verbatim>\<open>box.max.x >= this.min.x && box.min.x <= this.max.x\<close> and the same on y and z.
  The spec words them as boxes centred at the position with extents equal to the
  scale, compared on all three axes.
\<close>

record Box3 =
  box_min :: vec3
  box_max :: vec3

definition multiply :: "vec3 \<Rightarrow> vec3 \<Rightarrow> vec3" where
  "multiply a b = (vx a * vx b, vy a * vy b, vz a * vz b)"

definition setFromCenterAndSize :: "vec3 \<Rightarrow> vec3 \<Rightarrow> Box3" where
  "setFromCenterAndSize center sz =
     (let halfSize = (vx sz * (1 / 2), vy sz * (1 / 2), vz sz * (1 / 2))
      in \<lparr> box_min = (vx center - vx halfSize, vy center - vy halfSize, vz center - vz halfSize),
           box_max = (vx center + vx halfSize, vy center + vy halfSize, vz center + vz halfSize) \<rparr>)"

definition intersectsBox :: "Box3 \<Rightarrow> Box3 \<Rightarrow> bool" where
  "intersectsBox b1 b2 \<longleftrightarrow>
     vx (box_max b2) \<ge> vx (box_min b1) \<and> vx (box_min b2) \<le> vx (box_max b1) \<and>
     vy (box_max b2) \<ge> vy (box_min b1) \<and> vy (box_min b2) \<le> vy (box_max b1) \<and>
     vz (box_max b2) \<ge> vz (box_min b1) \<and> vz (box_min b2) \<le> vz (box_max b1)"

text \<open>
  The box the effect builds for one model: centre \<^verbatim>\<open>model.position\<close>, size
  \<^verbatim>\<open>new Vector3(1, 1, 1).multiply(scale)\<close>.
\<close>

definition modelBox :: "ModelData \<Rightarrow> Box3" where
  "modelBox model = setFromCenterAndSize (position model) (multiply (1, 1, 1) (scale model))"

text \<open>The test of the inner loop: \<^verbatim>\<open>box1.intersectsBox(box2)\<close>.\<close>

definition overlaps :: "ModelData \<Rightarrow> ModelData \<Rightarrow> bool" where
  "overlaps model1 model2 = intersectsBox (modelBox model1) (modelBox model2)"

record OverlapInfo =
  isOverlapping :: bool
  overlappingWith :: "string list"

type_synonym OverlapMap = "string \<rightharpoonup> OverlapInfo"

text \<open>
  \<^verbatim>\<open>models.forEach(model => newOverlapInfo[model.id] = {isOverlapping: false, overlappingWith: []})\<close>
\<close>

definition initOverlapInfo :: "ModelData list \<Rightarrow> OverlapMap" where
  "initOverlapInfo ms =
     fold (\<lambda>model info. info(model_id model \<mapsto> \<lparr> isOverlapping = False, overlappingWith = [] \<rparr>))
       ms Map.empty"

text \<open>
  \<^verbatim>\<open>info[a].isOverlapping = true; info[a].overlappingWith.push(b)\<close>. Every id of
  the list has an entry when the loops run (lemma \<open>dom_initOverlapInfo\<close> below), so
  the lookup never misses there; a missing entry is left alone.
\<close>

definition markOverlap :: "string \<Rightarrow> string \<Rightarrow> OverlapMap \<Rightarrow> OverlapMap" where
  "markOverlap a b info =
     (case info a of
        None \<Rightarrow> info
      | Some oi \<Rightarrow> info(a \<mapsto> \<lparr> isOverlapping = True, overlappingWith = overlappingWith oi @ [b] \<rparr>))"

text \<open>
  The two loops \<^verbatim>\<open>for i\<close>, \<^verbatim>\<open>for j = i + 1\<close>: \<open>innerLoop\<close> compares
  \<^verbatim>\<open>models[i]\<close> with every later record, \<open>outerLoop\<close> runs over \<^verbatim>\<open>i\<close>.
\<close>

fun innerLoop :: "ModelData \<Rightarrow> ModelData list \<Rightarrow> OverlapMap \<Rightarrow> OverlapMap" where
  "innerLoop model1 [] info = info"
| "innerLoop model1 (model2 # rest) info =
     innerLoop model1 rest
       (if overlaps model1 model2
        then markOverlap (model_id model2) (model_id model1)
               (markOverlap (model_id model1) (model_id model2) info)
        else info)"

fun outerLoop :: "ModelData list \<Rightarrow> OverlapMap \<Rightarrow> OverlapMap" where
  "outerLoop [] info = info"
| "outerLoop (model1 # rest) info = outerLoop rest (innerLoop model1 rest info)"

text \<open>
  The effect of \<^verbatim>\<open>SceneContent\<close>, run whenever \<^verbatim>\<open>models\<close> changes. Its state
  is \<^verbatim>\<open>overlapInfo\<close>, initially \<^verbatim>\<open>{}\<close>. With fewer than two models it returns
  before \<^verbatim>\<open>setOverlapInfo\<close>: the state stays what it was.
\<close>

definition overlapEffect :: "ModelData list \<Rightarrow> OverlapMap \<Rightarrow> OverlapMap" where
  "overlapEffect ms overlapInfo =
     (if length ms < 2 then overlapInfo else outerLoop ms (initOverlapInfo ms))"

text \<open>The effect run for a sequence of registries, one after the other.\<close>

fun overlapEffects :: "ModelData list list \<Rightarrow> OverlapMap \<Rightarrow> OverlapMap" where
  "overlapEffects [] overlapInfo = overlapInfo"
| "overlapEffects (ms # rest) overlapInfo = overlapEffects rest (overlapEffect ms overlapInfo)"

text \<open>
  What a model is rendered with:
  \<^verbatim>\<open>overlapInfo[model.id] || { isOverlapping: false, overlappingWith: [] }\<close>.
\<close>

definition overlapInfoFor :: "OverlapMap \<Rightarrow> ModelData \<Rightarrow> OverlapInfo" where
  "overlapInfoFor overlapInfo model =
     (case overlapInfo (model_id model) of
        None \<Rightarrow> \<lparr> isOverlapping = False, overlappingWith = [] \<rparr>
      | Some oi \<Rightarrow> oi)"

text \<open>
  The spec's words for the pair test, to compare \<open>overlaps\<close> with: the interval of a
  record on an axis is \<open>[pos - scale/2, pos + scale/2]\<close>, a set of reals (empty when
  the scale is negative), and two records overlap when the intervals meet on each of
  the three axes. \<open>spec_segments_meet\<close> is the same with the interval read as the
  segment between the two end points, whichever is the smaller.
\<close>

definition spec_interval :: "real \<Rightarrow> real \<Rightarrow> real set" where
  "spec_interval pos sc = {pos - sc / 2 .. pos + sc / 2}"

definition spec_overlaps :: "ModelData \<Rightarrow> ModelData \<Rightarrow> bool" where
  "spec_overlaps a b \<longleftrightarrow>
     spec_interval (vx (position a)) (vx (scale a)) \<inter>
       spec_interval (vx (position b)) (vx (scale b)) \<noteq> {} \<and>
     spec_interval (vy (position a)) (vy (scale a)) \<inter>
       spec_interval (vy (position b)) (vy (scale b)) \<noteq> {} \<and>
     spec_interval (vz (position a)) (vz (scale a)) \<inter>
       spec_interval (vz (position b)) (vz (scale b)) \<noteq> {}"

definition spec_segment :: "real \<Rightarrow> real \<Rightarrow> real set" where
  "spec_segment pos sc = {min (pos - sc / 2) (pos + sc / 2) .. max (pos - sc / 2) (pos + sc / 2)}"

definition spec_segments_meet :: "ModelData \<Rightarrow> ModelData \<Rightarrow> bool" where
  "spec_segments_meet a b \<longleftrightarrow>
     spec_segment (vx (position a)) (vx (scale a)) \<inter>
       spec_segment (vx (position b)) (vx (scale b)) \<noteq> {} \<and>
     spec_segment (vy (position a)) (vy (scale a)) \<inter>
       spec_segment (vy (position b)) (vy (scale b)) \<noteq> {} \<and>
     spec_segment (vz (position a)) (vz (scale a)) \<inter>
       spec_segment (vz (position b)) (vz (scale b)) \<noteq> {}"

definition nonneg_scale :: "ModelData \<Rightarrow> bool" where
  "nonneg_scale m \<longleftrightarrow> 0 \<le> vx (scale m) \<and> 0 \<le> vy (scale m) \<and> 0 \<le> vz (scale m)"

text \<open>A record with a given id, position and scale, for the concrete cases below.\<close>

definition model_at :: "string \<Rightarrow> vec3 \<Rightarrow> vec3 \<Rightarrow> ModelData" where
  "model_at i pos sc =
     \<lparr> model_id = i, name = [], url = [], position = pos, rotation = (0, 0, 0), scale = sc,
       visible = True, selected = False, opacity = 1 \<rparr>"

section \<open>The control panel (Controls)\<close>

datatype axis = X | Z

text \<open>
  Each handler of \<^verbatim>\<open>ControlPanel\<close> ends in one call \<^verbatim>\<open>onUpdate(model.id, patch)\<close>;
  it is modelled by the pair of the id and the patch.
\<close>

definition rotateModel :: "axis \<Rightarrow> ModelData \<Rightarrow> string \<times> ModelPatch" where
  "rotateModel a model =
     (let rad = pi / 2;
          currentRot = rotation model;
          currentRot' = (case a of
             X \<Rightarrow> (vx currentRot + rad, vy currentRot, vz currentRot)
           | Z \<Rightarrow> (vx currentRot, vy currentRot, vz currentRot + rad))
      in (model_id model, no_updates\<lparr>p_rotation := Some currentRot'\<rparr>))"

definition rotateClockwise :: "ModelData \<Rightarrow> string \<times> ModelPatch" where
  "rotateClockwise model =
     (let rad = pi / 4;
          currentRot = rotation model
      in (model_id model,
          no_updates\<lparr>p_rotation := Some (vx currentRot, vy currentRot + rad, vz currentRot)\<rparr>))"

definition toggleVisibility :: "ModelData \<Rightarrow> string \<times> ModelPatch" where
  "toggleVisibility model = (model_id model, no_updates\<lparr>p_visible := Some (\<not> visible model)\<rparr>)"

datatype direction = Up | Down

definition adjustHeight :: "direction \<Rightarrow> ModelData \<Rightarrow> string \<times> ModelPatch" where
  "adjustHeight d model =
     (let step = 0.05;
          currentPos = position model;
          currentPos' = (case d of
             Up \<Rightarrow> (vx currentPos, vy currentPos + step, vz currentPos)
           | Down \<Rightarrow> (vx currentPos, vy currentPos - step, vz currentPos))
      in (model_id model, no_updates\<lparr>p_position := Some currentPos'\<rparr>))"

text \<open>
  \<^verbatim>\<open>Controls\<close> renders one panel per record of \<^verbatim>\<open>models\<close>, with
  \<^verbatim>\<open>onUpdate = handleUpdateModel\<close>. A click on a button of the panel at index \<open>k\<close>
  runs the handler on the record at that index and sends the patch to the registry.
\<close>

definition panelClick :: "(ModelData \<Rightarrow> string \<times> ModelPatch) \<Rightarrow> nat \<Rightarrow> AppState \<Rightarrow> AppState" where
  "panelClick handler k st =
     (if k < length (models st)
      then (case handler (models st ! k) of (i, u) \<Rightarrow> handleUpdateModel i u st)
      else st)"

section \<open>One model of the scene (BuildingModel)\<close>

text \<open>
  \<^verbatim>\<open>src/components/BuildingModel.tsx\<close> holds two variants of the component.
  What they share is defined once; where they differ the definitions carry the
  suffix \<open>_v1\<close> (first variant) or \<open>_v2\<close> (second variant).
\<close>

subsection \<open>Smooth rotation\<close>

text \<open>
  The callback of \<^verbatim>\<open>useFrame\<close>, the same in both variants: \<open>delta\<close> is the
  elapsed frame time, the result is the next \<^verbatim>\<open>currentRotation\<close>.
\<close>

definition useFrame :: "real \<Rightarrow> vec3 \<Rightarrow> vec3 \<Rightarrow> vec3" where
  "useFrame delta currentRotation targetRotation =
     (if vx currentRotation \<noteq> vx targetRotation \<or>
         vy currentRotation \<noteq> vy targetRotation \<or>
         vz currentRotation \<noteq> vz targetRotation
      then (let easeFactor = 5 * delta;
                newX = vx currentRotation + (vx targetRotation - vx currentRotation) * easeFactor;
                newY = vy currentRotation + (vy targetRotation - vy currentRotation) * easeFactor;
                newZ = vz currentRotation + (vz targetRotation - vz currentRotation) * easeFactor
            in (newX, newY, newZ))
      else currentRotation)"

text \<open>A run of frames with the elapsed times \<open>deltas\<close>, the target staying the same.\<close>

fun frames :: "real list \<Rightarrow> vec3 \<Rightarrow> vec3 \<Rightarrow> vec3" where
  "frames [] currentRotation targetRotation = currentRotation"
| "frames (delta # deltas) currentRotation targetRotation =
     frames deltas (useFrame delta currentRotation targetRotation) targetRotation"

subsection \<open>Gestures\<close>

text \<open>
  The \<^verbatim>\<open>memo\<close> of a drag: \<^verbatim>\<open>undefined\<close> at the first \<^verbatim>\<open>onDrag\<close> of a gesture,
  where the default \<^verbatim>\<open>{ initialPos: data.position, initialRot: data.rotation }\<close>
  applies, and from then on what the handler returned last.
\<close>

record DragMemo =
  initialPos :: vec3
  initialRot :: vec3

definition memoOrDefault :: "ModelData \<Rightarrow> DragMemo option \<Rightarrow> DragMemo" where
  "memoOrDefault data memo =
     (case memo of
        None \<Rightarrow> \<lparr> initialPos = position data, initialRot = rotation data \<rparr>
      | Some m \<Rightarrow> m)"

text \<open>
  The handlers that select: the result is the argument of the call of
  \<^verbatim>\<open>onSelect\<close>, or \<open>None\<close> when the handler does not call it.
\<close>

definition onDragStart_v1 :: "ModelData \<Rightarrow> string option" where
  "onDragStart_v1 data = (if \<not> selected data then Some (model_id data) else None)"

definition onDragStart_v2 :: "ModelData \<Rightarrow> nat \<Rightarrow> string option" where
  "onDragStart_v2 data touches =
     (if touches = 1 then (if \<not> selected data then Some (model_id data) else None) else None)"

definition onClick :: "ModelData \<Rightarrow> string option" where
  "onClick data = Some (model_id data)"

text \<open>
  \<^verbatim>\<open>onDrag\<close>: \<open>movement\<close> is the accumulated screen movement \<^verbatim>\<open>[x, y]\<close> of the
  gesture. The result is the call of \<^verbatim>\<open>onUpdate\<close>, if any, and the memo returned.
\<close>

definition onDrag_v1 ::
  "ModelData \<Rightarrow> real \<times> real \<Rightarrow> nat \<Rightarrow> DragMemo option \<Rightarrow> (string \<times> ModelPatch) option \<times> DragMemo" where
  "onDrag_v1 data movement touches memo0 =
     (let memo = memoOrDefault data memo0; x = fst movement; y = snd movement in
      if \<not> selected data then (None, memo)
      else if touches = 1 then
        (let moveSpeed = 0.05;
             newX = vx (initialPos memo) + (x * moveSpeed);
             newZ = vz (initialPos memo) + (y * moveSpeed)
         in (Some (model_id data,
                   no_updates\<lparr>p_position := Some (newX, vy (initialPos memo), newZ)\<rparr>), memo))
      else if touches = 2 then
        (let moveSpeed = 0.05;
             newX = vx (initialPos memo) + (x * moveSpeed);
             newY = vy (initialPos memo) + (y * moveSpeed);
             newZ = vz (initialPos memo)
         in (Some (model_id data, no_updates\<lparr>p_position := Some (newX, newY, newZ)\<rparr>), memo))
      else (None, memo))"

definition GRID_SIZE :: real where
  "GRID_SIZE = 6"

definition BOUNDARY_MIN :: real where
  "BOUNDARY_MIN = - GRID_SIZE / 2"

definition BOUNDARY_MAX :: real where
  "BOUNDARY_MAX = GRID_SIZE / 2"

definition onDrag_v2 ::
  "ModelData \<Rightarrow> real \<times> real \<Rightarrow> nat \<Rightarrow> DragMemo option \<Rightarrow> (string \<times> ModelPatch) option \<times> DragMemo" where
  "onDrag_v2 data movement touches memo0 =
     (let memo = memoOrDefault data memo0; x = fst movement; y = snd movement in
      if touches = 1 then
        (if \<not> selected data then (None, memo)
         else
          (let moveSpeed = 0.05;
               newX = max BOUNDARY_MIN (min BOUNDARY_MAX (vx (initialPos memo) + (x * moveSpeed)));
               newZ = max BOUNDARY_MIN (min BOUNDARY_MAX (vz (initialPos memo) + (y * moveSpeed)))
           in (Some (model_id data,
                     no_updates\<lparr>p_position := Some (newX, vy (initialPos memo), newZ)\<rparr>), memo)))
      else (None, memo))"

text \<open>
  \<^verbatim>\<open>Scene\<close> hands \<^verbatim>\<open>handleUpdateModel\<close> to every model as \<^verbatim>\<open>onUpdate\<close> and
  \<^verbatim>\<open>handleSelectModel\<close> as \<^verbatim>\<open>onSelect\<close>; the ground calls
  \<^verbatim>\<open>onSelectModel(null)\<close>.
\<close>

definition sendUpdate :: "(string \<times> ModelPatch) option \<Rightarrow> AppState \<Rightarrow> AppState" where
  "sendUpdate call st = (case call of None \<Rightarrow> st | Some (i, u) \<Rightarrow> handleUpdateModel i u st)"

definition sendSelect :: "string option \<Rightarrow> AppState \<Rightarrow> AppState" where
  "sendSelect call st = (case call of None \<Rightarrow> st | Some i \<Rightarrow> handleSelectModel (Some i) st)"

definition onDeselect :: "AppState \<Rightarrow> AppState" where
  "onDeselect st = handleSelectModel None st"

text \<open>
  A drag gesture on the model at index \<open>k\<close> of the registry: the handler \<open>onDrag\<close>
  receives the events of the gesture in turn, each an accumulated movement and a
  number of contacts. The component is rendered again between two events, so the
  handler sees the record as the previous update left it; the memo starts
  undefined and is threaded through.
\<close>

fun dragGesture ::
  "(ModelData \<Rightarrow> real \<times> real \<Rightarrow> nat \<Rightarrow> DragMemo option \<Rightarrow> (string \<times> ModelPatch) option \<times> DragMemo)
   \<Rightarrow> nat \<Rightarrow> ((real \<times> real) \<times> nat) list \<Rightarrow> DragMemo option \<Rightarrow> AppState \<Rightarrow> AppState" where
  "dragGesture onDrag k [] memo st = st"
| "dragGesture onDrag k ((movement, touches) # events) memo st =
     (if k < length (models st)
      then (case onDrag (models st ! k) movement touches memo of
              (call, memo') \<Rightarrow> dragGesture onDrag k events (Some memo') (sendUpdate call st))
      else st)"

text \<open>
  The spec's words for the bound of a drag: a coordinate clamped to \<open>[lo, hi]\<close>.
\<close>

definition spec_clamp :: "real \<Rightarrow> real \<Rightarrow> real \<Rightarrow> real" where
  "spec_clamp lo hi v = (if v < lo then lo else if hi < v then hi else v)"

subsection \<open>Materials and the ghost instance\<close>

text \<open>
  The fields of a three.js material that the component writes. \<^verbatim>\<open>opacity\<close> is
  called \<open>mat_opacity\<close> (the model record has an \<open>opacity\<close> of its own); a colour is
  its hexadecimal value.
\<close>

datatype Side = FrontSide | BackSide | DoubleSide

datatype Blending =
  NoBlending | NormalBlending | AdditiveBlending | SubtractiveBlending
  | MultiplyBlending | CustomBlending

record Material =
  transparent :: bool
  mat_opacity :: real
  depthWrite :: bool
  side :: Side
  depthTest :: bool
  blending :: Blending
  color :: nat

text \<open>
  The materials of a loaded scene are objects that its clones share:
  \<^verbatim>\<open>scene.clone()\<close> copies the objects of the graph and keeps the references to
  geometry and material, and \<^verbatim>\<open>useGLTF\<close> gives the models of one url the same
  scene. A material of a scene is a reference into a store of materials, and what
  an effect writes into a material is seen by every clone that holds the reference.
\<close>

type_synonym mat_ref = nat

type_synonym MaterialStore = "mat_ref \<Rightarrow> Material"

text \<open>
  \<^verbatim>\<open>child.material\<close> is absent, one material or an array of materials. In a
  scene and its clones the materials are references (\<open>'m = mat_ref\<close>); the meshes of
  the overlap clone each get a material of their own, made for them and held by
  nothing else, which is kept as a value (\<open>'m = Material\<close>).
\<close>

datatype 'm MaterialSlot = NoMaterial | Single 'm | Array "'m list"

record ('g, 'm) Mesh =
  geometry :: 'g
  material :: "'m MaterialSlot"
  castShadow :: bool
  receiveShadow :: bool

text \<open>
  \<^verbatim>\<open>traverse\<close> calls its callback on every object of the graph, and the callbacks
  of the component act on one object at a time: a scene is the list of its objects
  in the order of the traversal, each a mesh or something else.
\<close>

datatype ('g, 'm) Object3D = MeshObject "('g, 'm) Mesh" | OtherObject

type_synonym 'g Scene = "('g, mat_ref) Object3D list"

type_synonym 'g GhostScene = "('g, Material) Object3D list"

datatype error = TypeError

definition name_anchor :: string where
  "name_anchor = [CHR 0xE9, CHR 0x94, CHR 0x9A, CHR 0xE5, CHR 0xAE, CHR 0x9A]"

definition name_reality :: string where
  "name_reality = [CHR 0xE7, CHR 0x8E, CHR 0xB0, CHR 0xE5, CHR 0xAE, CHR 0x9E]"

text \<open>The colour by name of the second variant.\<close>

definition nameColor :: "string \<Rightarrow> nat" where
  "nameColor n =
     (if n = name_anchor then 0x1781b5
      else if n = name_reality then 0xee3f4d
      else 0xffffff)"

text \<open>
  What the effect on the primary clone writes into one material
  (\<^verbatim>\<open>needsUpdate\<close> only tells the renderer to recompile).
\<close>

definition solidMaterial_v1 :: "Material \<Rightarrow> Material" where
  "solidMaterial_v1 mat =
     mat\<lparr> transparent := False, mat_opacity := 1, depthWrite := True, side := FrontSide,
          depthTest := True, blending := NormalBlending \<rparr>"

definition solidMaterial_v2 :: "string \<Rightarrow> Material \<Rightarrow> Material" where
  "solidMaterial_v2 n mat =
     (let mat1 =
        (if n = name_anchor then mat\<lparr> transparent := False, mat_opacity := 1 \<rparr>
         else if n = name_reality then mat\<lparr> transparent := True, mat_opacity := 0.6 \<rparr>
         else mat\<lparr> transparent := False, mat_opacity := 1 \<rparr>)
      in mat1\<lparr> depthWrite := True, side := FrontSide, depthTest := True,
                blending := NormalBlending, color := nameColor n \<rparr>)"

text \<open>
  \<^verbatim>\<open>Array.isArray(child.material) ? child.material : [child.material]\<close>, under
  \<^verbatim>\<open>if (child.material)\<close>.
\<close>

fun slotMaterials :: "'m MaterialSlot \<Rightarrow> 'm list" where
  "slotMaterials NoMaterial = []"
| "slotMaterials (Single mat) = [mat]"
| "slotMaterials (Array mats) = mats"

text \<open>\<^verbatim>\<open>materials.forEach\<close>: each material of the mesh is written in place, in turn.\<close>

definition writeMaterials :: "(Material \<Rightarrow> Material) \<Rightarrow> mat_ref list \<Rightarrow> MaterialStore \<Rightarrow> MaterialStore" where
  "writeMaterials solid refs store = fold (\<lambda>r st. st(r := solid (st r))) refs store"

text \<open>
  The effect on the primary clone: the callback turns the shadows of a mesh on (on
  the clone's own object) and writes its materials (in the shared store).
\<close>

fun primaryChild ::
  "(Material \<Rightarrow> Material) \<Rightarrow> ('g, mat_ref) Object3D \<Rightarrow> MaterialStore \<Rightarrow>
   ('g, mat_ref) Object3D \<times> MaterialStore" where
  "primaryChild solid OtherObject store = (OtherObject, store)"
| "primaryChild solid (MeshObject child) store =
     (MeshObject (child\<lparr> castShadow := True, receiveShadow := True \<rparr>),
      writeMaterials solid (slotMaterials (material child)) store)"

fun primaryTraverse ::
  "(Material \<Rightarrow> Material) \<Rightarrow> 'g Scene \<Rightarrow> MaterialStore \<Rightarrow> 'g Scene \<times> MaterialStore" where
  "primaryTraverse solid [] store = ([], store)"
| "primaryTraverse solid (child # rest) store =
     (case primaryChild solid child store of
        (child', store') \<Rightarrow>
          (case primaryTraverse solid rest store' of
             (rest', store'') \<Rightarrow> (child' # rest', store'')))"

definition primaryEffect_v1 :: "'g Scene \<Rightarrow> MaterialStore \<Rightarrow> 'g Scene \<times> MaterialStore" where
  "primaryEffect_v1 clone store = primaryTraverse solidMaterial_v1 clone store"

definition primaryEffect_v2 :: "string \<Rightarrow> 'g Scene \<Rightarrow> MaterialStore \<Rightarrow> 'g Scene \<times> MaterialStore" where
  "primaryEffect_v2 n clone store = primaryTraverse (solidMaterial_v2 n) clone store"

text \<open>
  The material of the overlap visualisation: a clone of the original, a new
  material, with the five fields set (and the colour, in the second variant).
\<close>

definition ghostMaterial_v1 :: "Material \<Rightarrow> Material" where
  "ghostMaterial_v1 originalMaterial =
     originalMaterial\<lparr> transparent := True, mat_opacity := 0.4, depthWrite := False,
       side := BackSide, blending := AdditiveBlending \<rparr>"

definition ghostMaterial_v2 :: "string \<Rightarrow> Material \<Rightarrow> Material" where
  "ghostMaterial_v2 n originalMaterial =
     originalMaterial\<lparr> transparent := True, mat_opacity := 0.4, depthWrite := False,
       side := BackSide, blending := AdditiveBlending, color := nameColor n \<rparr>"

text \<open>
  The callback of the traversal of the overlap clone; \<open>store\<close> holds the materials
  as they are when \<^verbatim>\<open>overlapClone\<close> is computed. The original is read from the
  store and left as it is. \<^verbatim>\<open>if (child.material)\<close> holds for an array too, also
  an empty one; there \<^verbatim>\<open>child.material[0]\<close> is \<^verbatim>\<open>undefined\<close> and \<^verbatim>\<open>.clone()\<close>
  throws.
\<close>

fun ghostChild ::
  "(Material \<Rightarrow> Material) \<Rightarrow> MaterialStore \<Rightarrow> ('g, mat_ref) Object3D \<Rightarrow>
   error + ('g, Material) Object3D" where
  "ghostChild ghost store OtherObject = Inr OtherObject"
| "ghostChild ghost store (MeshObject child) =
     (case material child of
        NoMaterial \<Rightarrow>
          Inr (MeshObject \<lparr> geometry = geometry child, material = NoMaterial,
                 castShadow = False, receiveShadow = False \<rparr>)
      | Single originalMaterial \<Rightarrow>
          Inr (MeshObject \<lparr> geometry = geometry child,
                 material = Single (ghost (store originalMaterial)),
                 castShadow = False, receiveShadow = False \<rparr>)
      | Array [] \<Rightarrow> Inl TypeError
      | Array (originalMaterial # _) \<Rightarrow>
          Inr (MeshObject \<lparr> geometry = geometry child,
                 material = Single (ghost (store originalMaterial)),
                 castShadow = False, receiveShadow = False \<rparr>))"

fun traverse :: "('a \<Rightarrow> error + 'b) \<Rightarrow> 'a list \<Rightarrow> error + 'b list" where
  "traverse f [] = Inr []"
| "traverse f (child # rest) =
     (case f child of
        Inl e \<Rightarrow> Inl e
      | Inr child' \<Rightarrow>
          (case traverse f rest of Inl e \<Rightarrow> Inl e | Inr rest' \<Rightarrow> Inr (child' # rest')))"

definition overlapClone_v1 ::
  "OverlapInfo \<Rightarrow> 'g Scene \<Rightarrow> MaterialStore \<Rightarrow> error + 'g GhostScene option" where
  "overlapClone_v1 overlapInfo scene store =
     (if \<not> isOverlapping overlapInfo then Inr None
      else (case traverse (ghostChild ghostMaterial_v1 store) scene of
              Inl e \<Rightarrow> Inl e
            | Inr clone \<Rightarrow> Inr (Some clone)))"

definition overlapClone_v2 ::
  "ModelData \<Rightarrow> OverlapInfo \<Rightarrow> 'g Scene \<Rightarrow> MaterialStore \<Rightarrow> error + 'g GhostScene option" where
  "overlapClone_v2 data overlapInfo scene store =
     (if \<not> isOverlapping overlapInfo then Inr None
      else (case traverse (ghostChild (ghostMaterial_v2 (name data)) store) scene of
              Inl e \<Rightarrow> Inl e
            | Inr clone \<Rightarrow> Inr (Some clone)))"

text \<open>
  What the body of \<^verbatim>\<open>BuildingModelContent\<close> returns for its props once its
  effects have run: nothing when the model is not visible, otherwise the group at
  \<^verbatim>\<open>data.position\<close> with \<^verbatim>\<open>data.scale\<close>, rotated by \<^verbatim>\<open>currentRotation\<close>,
  holding the primary clone (its materials are read from the store) and, when
  there is one, the overlap clone. The hooks run before the visibility test, so an
  exception of \<^verbatim>\<open>overlapClone\<close> is thrown for a hidden model too. The outlines of
  selection and hover are left out.
\<close>

record 'g Rendered =
  group_position :: vec3
  group_scale :: vec3
  group_rotation :: vec3
  primary :: "'g Scene"
  ghost :: "'g GhostScene option"

definition BuildingModelContent_v1 ::
  "ModelData \<Rightarrow> OverlapInfo \<Rightarrow> 'g Scene \<Rightarrow> MaterialStore \<Rightarrow> vec3 \<Rightarrow>
   error + 'g Rendered option" where
  "BuildingModelContent_v1 data overlapInfo scene store currentRotation =
     (case overlapClone_v1 overlapInfo scene store of
        Inl e \<Rightarrow> Inl e
      | Inr overlapClone \<Rightarrow>
          if \<not> visible data then Inr None
          else Inr (Some \<lparr> group_position = position data, group_scale = scale data,
                            group_rotation = currentRotation,
                            primary = fst (primaryEffect_v1 scene store),
                            ghost = overlapClone \<rparr>))"

definition BuildingModelContent_v2 ::
  "ModelData \<Rightarrow> OverlapInfo \<Rightarrow> 'g Scene \<Rightarrow> MaterialStore \<Rightarrow> vec3 \<Rightarrow>
   error + 'g Rendered option" where
  "BuildingModelContent_v2 data overlapInfo scene store currentRotation =
     (case overlapClone_v2 data overlapInfo scene store of
        Inl e \<Rightarrow> Inl e
      | Inr overlapClone \<Rightarrow>
          if \<not> visible data then Inr None
          else Inr (Some \<lparr> group_position = position data, group_scale = scale data,
                            group_rotation = currentRotation,
                            primary = fst (primaryEffect_v2 (name data) scene store),
                            ghost = overlapClone \<rparr>))"

subsection \<open>The memoised component and the props it renders with\<close>

text \<open>
  The component that \<^verbatim>\<open>Scene\<close> mounts is \<^verbatim>\<open>React.memo(..., comparator)\<close>. The
  comparator compares \<^verbatim>\<open>JSON.stringify\<close> of the two \<^verbatim>\<open>data\<close> props, which is
  the equality of the records, and the identity of the two handlers, which
  \<^verbatim>\<open>App\<close> makes with \<^verbatim>\<open>useCallback(..., [])\<close> and never replaces; it does not look at
  \<^verbatim>\<open>overlapInfo\<close>. When it returns true the component keeps the props of its last
  render, and the body, whenever it runs again for a change of its own state, runs
  with those.
\<close>

definition arePropsEqual :: "ModelData \<times> OverlapInfo \<Rightarrow> ModelData \<times> OverlapInfo \<Rightarrow> bool" where
  "arePropsEqual prevProps nextProps =
     (let dataChanged = (fst prevProps = fst nextProps);
          handlersChanged = True
      in dataChanged \<and> handlersChanged)"

definition memoProps ::
  "(ModelData \<times> OverlapInfo) option \<Rightarrow> ModelData \<times> OverlapInfo \<Rightarrow> ModelData \<times> OverlapInfo" where
  "memoProps mounted nextProps =
     (case mounted of
        None \<Rightarrow> nextProps
      | Some prevProps \<Rightarrow> if arePropsEqual prevProps nextProps then prevProps else nextProps)"

text \<open>
  The state of \<^verbatim>\<open>SceneContent\<close> with its models: the state \<^verbatim>\<open>overlapInfo\<close> and,
  for the model at each index of the registry, the props its component renders
  with (\<open>None\<close> before it is mounted). One render of \<^verbatim>\<open>SceneContent\<close> hands every
  model its record and \<^verbatim>\<open>overlapInfo[model.id] || {...}\<close>.
\<close>

record SceneState =
  overlapInfo_state :: OverlapMap
  seenProps :: "(ModelData \<times> OverlapInfo) option list"

definition renderModels ::
  "OverlapMap \<Rightarrow> ModelData list \<Rightarrow> (ModelData \<times> OverlapInfo) option list \<Rightarrow>
   (ModelData \<times> OverlapInfo) option list" where
  "renderModels info ms mounted =
     map (\<lambda>(model, m). Some (memoProps m (model, overlapInfoFor info model))) (zip ms mounted)"

text \<open>
  What a new registry \<open>ms\<close> (of the same length: the application never adds or
  removes a model) sets off: \<^verbatim>\<open>SceneContent\<close> renders with the state it has, the
  effect computes the new \<^verbatim>\<open>overlapInfo\<close>, and \<^verbatim>\<open>setOverlapInfo\<close> makes
  \<^verbatim>\<open>SceneContent\<close> render once more. Mounting is the same from the empty state.
\<close>

definition sceneUpdate :: "ModelData list \<Rightarrow> SceneState \<Rightarrow> SceneState" where
  "sceneUpdate ms st =
     (let seen1 = renderModels (overlapInfo_state st) ms (seenProps st);
          info' = overlapEffect ms (overlapInfo_state st);
          seen2 = renderModels info' ms seen1
      in \<lparr> overlapInfo_state = info', seenProps = seen2 \<rparr>)"







text \<open>
  A material, a store and a scene of one mesh, for the concrete cases below.
\<close>

definition material0 :: Material where
  "material0 = \<lparr> transparent = False, mat_opacity = 1, depthWrite = True, side = DoubleSide,
     depthTest = True, blending = NormalBlending, color = 0 \<rparr>"

definition store0 :: MaterialStore where
  "store0 = (\<lambda>r. material0)"

definition scene0 :: "unit Scene" where
  "scene0 = [MeshObject \<lparr> geometry = (), material = Single 0, castShadow = False,
     receiveShadow = False \<rparr>]"

section \<open>The states the application reaches\<close>

text \<open>
  The registry starts as \<^verbatim>\<open>INITIAL_MODELS\<close> with nothing selected and changes only
  through the two entry points. Every patch the components send (from the panel
  handlers and from \<^verbatim>\<open>onDrag\<close>) sets \<^verbatim>\<open>position\<close>, \<^verbatim>\<open>rotation\<close> or
  \<^verbatim>\<open>visible\<close>; none carries \<^verbatim>\<open>id\<close> or \<^verbatim>\<open>selected\<close>.
\<close>

inductive reachable :: "string \<Rightarrow> string \<Rightarrow> AppState \<Rightarrow> bool" for url1 url2 where
  start: "reachable url1 url2 (initial_state url1 url2)"
| select: "reachable url1 url2 st \<Longrightarrow> reachable url1 url2 (handleSelectModel i st)"
| update: "reachable url1 url2 st \<Longrightarrow> p_id u = None \<Longrightarrow> p_selected u = None \<Longrightarrow>
           reachable url1 url2 (handleUpdateModel i u st)"

section \<open>Frame properties of the update entry point\<close>

lemma length_updateModels: "length (updateModels i u ms) = length ms"
  by (simp add: updateModels_def)

lemma nth_updateModels:
  "k < length ms \<Longrightarrow>
   updateModels i u ms ! k = (if model_id (ms ! k) = i then spread (ms ! k) u else ms ! k)"
  by (simp add: updateModels_def)

lemma updateModels_absent:
  "i \<notin> model_id ` set ms \<Longrightarrow> updateModels i u ms = ms"
  by (induction ms) (auto simp: updateModels_def)

text \<open>
  C10. An update through \<^verbatim>\<open>handleUpdateModel\<close> with an id and a patch keeps the
  number of records, leaves every record whose id differs from the given id as it
  was and at its place in the list (so the order is kept), leaves the selected id
  alone, and changes nothing at all when no record has the given id.
\<close>

theorem handleUpdateModel_frame:
  "length (models (handleUpdateModel i u st)) = length (models st)
   \<and> (\<forall>k < length (models st).
        model_id (models st ! k) \<noteq> i \<longrightarrow>
        models (handleUpdateModel i u st) ! k = models st ! k)
   \<and> selectedId (handleUpdateModel i u st) = selectedId st
   \<and> (i \<notin> model_id ` set (models st) \<longrightarrow> handleUpdateModel i u st = st)"
  by (simp add: handleUpdateModel_def length_updateModels nth_updateModels
      updateModels_absent)

theorem handleUpdateModel_frame_witness:
  "length (models (handleUpdateModel ''model-1'' (no_updates\<lparr>p_visible := Some False\<rparr>)
      (initial_state [] []))) = length (models (initial_state [] []))
   \<and> (1::nat) < length (models (initial_state [] []))
   \<and> model_id (models (initial_state [] []) ! 1) \<noteq> ''model-1''
   \<and> models (handleUpdateModel ''model-1'' (no_updates\<lparr>p_visible := Some False\<rparr>)
        (initial_state [] [])) ! 1 = models (initial_state [] []) ! 1
   \<and> ''model-3'' \<notin> model_id ` set (models (initial_state [] []))
   \<and> handleUpdateModel ''model-3'' (no_updates\<lparr>p_visible := Some False\<rparr>)
        (initial_state [] []) = initial_state [] []"
  using handleUpdateModel_frame [of "''model-1''" "no_updates\<lparr>p_visible := Some False\<rparr>"
      "initial_state [] []"]
    handleUpdateModel_frame [of "''model-3''" "no_updates\<lparr>p_visible := Some False\<rparr>"
      "initial_state [] []"]
  by (simp add: initial_state_def INITIAL_MODELS_def)

section \<open>Exclusive selection\<close>

lemma filter_key_at_most_one:
  "distinct (map f xs) \<Longrightarrow> length (filter (\<lambda>x. f x = a) xs) \<le> 1"
proof (induction xs)
  case Nil
  then show ?case by simp
next
  case (Cons x xs)
  show ?case
  proof (cases "f x = a")
    case True
    with Cons.prems have "\<forall>y \<in> set xs. f y \<noteq> a"
      by (auto simp: image_iff)
    then have "filter (\<lambda>x. f x = a) xs = []"
      by (simp add: filter_empty_conv)
    with True show ?thesis by simp
  next
    case False
    with Cons show ?thesis by simp
  qed
qed

lemma filter_selected_handleSelectModel:
  "filter selected (models (handleSelectModel i st)) =
   map (\<lambda>m. m\<lparr>selected := True\<rparr>) (filter (\<lambda>m. Some (model_id m) = i) (models st))"
  by (induction "models st" arbitrary: st)
     (auto simp: handleSelectModel_def filter_map comp_def intro!: map_cong filter_cong)

text \<open>
  C3. In a registry whose ids are unique (the data model's invariant), after
  \<^verbatim>\<open>handleSelectModel\<close>, called with an id or with \<^verbatim>\<open>null\<close> (the click on the
  empty ground), at most one record is selected: the one update of the list sets
  the flag of every record to whether its id is the selected one, whatever was
  selected before, and touches no other field; after a deselection no record is
  selected.
\<close>

theorem handleSelectModel_exclusive:
  assumes "distinct (map model_id (models st))"
  shows "length (filter selected (models (handleSelectModel i st))) \<le> 1
    \<and> length (models (handleSelectModel i st)) = length (models st)
    \<and> (\<forall>k < length (models st).
          models (handleSelectModel i st) ! k =
          (models st ! k)\<lparr>selected := (Some (model_id (models st ! k)) = i)\<rparr>)
    \<and> selectedId (handleSelectModel i st) = i
    \<and> filter selected (models (onDeselect st)) = []"
proof -
  have "length (filter (\<lambda>m. Some (model_id m) = i) (models st)) \<le> 1"
  proof (cases i)
    case None
    then show ?thesis by simp
  next
    case (Some b)
    have "filter (\<lambda>m. Some (model_id m) = Some b) (models st) =
          filter (\<lambda>m. model_id m = b) (models st)"
      by simp
    with Some filter_key_at_most_one [OF assms, of b] show ?thesis
      by simp
  qed
  then have "length (filter selected (models (handleSelectModel i st))) \<le> 1"
    by (simp add: filter_selected_handleSelectModel)
  moreover have "filter selected (models (onDeselect st)) = []"
    by (simp add: onDeselect_def filter_selected_handleSelectModel)
  ultimately show ?thesis
    by (simp add: handleSelectModel_def)
qed

theorem handleSelectModel_exclusive_witness:
  "distinct (map model_id (models (handleSelectModel (Some ''model-1'') (initial_state [] []))))
   \<and> map selected (models (handleSelectModel (Some ''model-1'') (initial_state [] []))) =
       [True, False]
   \<and> length (filter selected (models (handleSelectModel (Some ''model-2'')
        (handleSelectModel (Some ''model-1'') (initial_state [] []))))) \<le> 1
   \<and> map selected (models (handleSelectModel (Some ''model-2'')
        (handleSelectModel (Some ''model-1'') (initial_state [] [])))) = [False, True]
   \<and> map selected (models (onDeselect
        (handleSelectModel (Some ''model-1'') (initial_state [] [])))) = [False, False]"
proof -
  have d: "distinct (map model_id
      (models (handleSelectModel (Some ''model-1'') (initial_state [] []))))"
    by (simp add: handleSelectModel_def initial_state_def INITIAL_MODELS_def)
  from d handleSelectModel_exclusive [OF d, of "Some ''model-2''"] show ?thesis
    by (simp add: handleSelectModel_def onDeselect_def initial_state_def INITIAL_MODELS_def)
qed

text \<open>
  The hypothesis of uniqueness holds in every state the application reaches, and
  so does the invariant itself: the initial registry has two ids and nothing
  selected, a selection leaves at most one record selected, and an update changes
  neither an id nor a flag.
\<close>

lemma map_model_id_handleSelectModel:
  "map model_id (models (handleSelectModel i st)) = map model_id (models st)"
  by (simp add: handleSelectModel_def comp_def)

lemma spread_keeps_id_selected:
  "p_id u = None \<Longrightarrow> p_selected u = None \<Longrightarrow>
   model_id (spread m u) = model_id m \<and> selected (spread m u) = selected m"
  by (simp add: spread_def)

lemma map_model_id_handleUpdateModel:
  "p_id u = None \<Longrightarrow> map model_id (models (handleUpdateModel i u st)) = map model_id (models st)"
  by (simp add: handleUpdateModel_def updateModels_def spread_def)

lemma filter_selected_handleUpdateModel:
  assumes "p_id u = None" and "p_selected u = None"
  shows "length (filter selected (models (handleUpdateModel i u st))) =
         length (filter selected (models st))"
proof -
  have "length (filter selected (updateModels i u ms)) = length (filter selected ms)" for ms
    by (induction ms) (simp_all add: updateModels_def spread_keeps_id_selected [OF assms])
  then show ?thesis
    by (simp add: handleUpdateModel_def)
qed

lemma reachable_invariant:
  assumes "reachable url1 url2 st"
  shows "distinct (map model_id (models st)) \<and> length (filter selected (models st)) \<le> 1"
  using assms
proof (induction rule: reachable.induct)
  case start
  show ?case
    by (simp add: initial_state_def INITIAL_MODELS_def)
next
  case (select st i)
  then have d: "distinct (map model_id (models st))"
    by simp
  have "length (filter (\<lambda>m. Some (model_id m) = i) (models st)) \<le> 1"
  proof (cases i)
    case None
    then show ?thesis by simp
  next
    case (Some b)
    with filter_key_at_most_one [OF d, of b] show ?thesis
      by simp
  qed
  with d show ?case
    by (simp add: map_model_id_handleSelectModel filter_selected_handleSelectModel)
next
  case (update st u i)
  then show ?case
    by (simp add: map_model_id_handleUpdateModel filter_selected_handleUpdateModel)
qed

text \<open>
  The handlers of a model that select (\<open>onClick\<close>, \<open>onDragStart_v1\<close>,
  \<open>onDragStart_v2\<close>) reach the registry through \<open>sendSelect\<close>: whatever they ask
  for, at most one record is selected afterwards.
\<close>

lemma sendSelect_exclusive:
  assumes "distinct (map model_id (models st))" and "length (filter selected (models st)) \<le> 1"
  shows "length (filter selected (models (sendSelect call st))) \<le> 1"
proof (cases call)
  case None
  with assms(2) show ?thesis by (simp add: sendSelect_def)
next
  case (Some i)
  have "filter (\<lambda>m. Some (model_id m) = Some i) (models st) = filter (\<lambda>m. model_id m = i) (models st)"
    by simp
  with Some filter_key_at_most_one [OF assms(1), of i] show ?thesis
    by (simp add: sendSelect_def filter_selected_handleSelectModel)
qed

section \<open>The pair test of the overlap detector\<close>

lemma overlaps_commute: "overlaps a b = overlaps b a"
  by (auto simp: overlaps_def intersectsBox_def)

lemma overlaps_is_spec_overlaps:
  "nonneg_scale a \<Longrightarrow> nonneg_scale b \<Longrightarrow> overlaps a b = spec_overlaps a b"
  by (cases "position a"; cases "position b"; cases "scale a"; cases "scale b")
     (auto simp: overlaps_def intersectsBox_def modelBox_def setFromCenterAndSize_def
      multiply_def spec_overlaps_def spec_interval_def nonneg_scale_def Let_def)

text \<open>
  C1, as the code has it. The pair test is symmetric for all records. When no scale
  component of the two records is negative, it holds exactly when the intervals
  \<open>[position - scale/2, position + scale/2]\<close> of the two records meet on each of the
  three axes. The boxes are built from the position and the scale alone.
\<close>

theorem overlaps_symmetric_intervals:
  "overlaps a b = overlaps b a
   \<and> (nonneg_scale a \<and> nonneg_scale b \<longrightarrow> overlaps a b = spec_overlaps a b)"
  by (simp add: overlaps_commute overlaps_is_spec_overlaps)

theorem overlaps_symmetric_intervals_witness:
  "nonneg_scale (model_at ''a'' (0, 0, 0) (1, 1, 1))
   \<and> nonneg_scale (model_at ''b'' (1 / 2, 0, 0) (1, 1, 1))
   \<and> overlaps (model_at ''a'' (0, 0, 0) (1, 1, 1)) (model_at ''b'' (1 / 2, 0, 0) (1, 1, 1))
   \<and> overlaps (model_at ''b'' (1 / 2, 0, 0) (1, 1, 1)) (model_at ''a'' (0, 0, 0) (1, 1, 1))
   \<and> spec_overlaps (model_at ''a'' (0, 0, 0) (1, 1, 1)) (model_at ''b'' (1 / 2, 0, 0) (1, 1, 1))"
  using overlaps_symmetric_intervals
    [of "model_at ''a'' (0, 0, 0) (1, 1, 1)" "model_at ''b'' (1 / 2, 0, 0) (1, 1, 1)"]
  by (simp add: overlaps_def intersectsBox_def modelBox_def setFromCenterAndSize_def
      multiply_def nonneg_scale_def model_at_def Let_def)

text \<open>
  With a negative scale the box has its \<open>min\<close> above its \<open>max\<close>, and the test no
  longer agrees with the intervals, however they are read. Read as sets, the
  interval of a record of scale \<open>-2\<close> is empty and meets nothing, yet the test
  holds against a box around it. Read as segments, the segment of the same record
  contains that of a record of scale \<open>1\<close> at the same place, yet the test fails.
\<close>

theorem overlaps_negative_scale_counterexample:
  "overlaps (model_at ''a'' (0, 0, 0) (- 2, - 2, - 2)) (model_at ''b'' (0, 0, 0) (10, 10, 10))
   \<and> \<not> spec_overlaps (model_at ''a'' (0, 0, 0) (- 2, - 2, - 2))
         (model_at ''b'' (0, 0, 0) (10, 10, 10))
   \<and> \<not> overlaps (model_at ''a'' (0, 0, 0) (- 2, - 2, - 2)) (model_at ''c'' (0, 0, 0) (1, 1, 1))
   \<and> spec_segments_meet (model_at ''a'' (0, 0, 0) (- 2, - 2, - 2))
         (model_at ''c'' (0, 0, 0) (1, 1, 1))"
  by (simp add: overlaps_def intersectsBox_def modelBox_def setFromCenterAndSize_def
      multiply_def spec_overlaps_def spec_interval_def spec_segments_meet_def
      spec_segment_def model_at_def Let_def)

text \<open>The two scenarios of the spec, on the pair test.\<close>

lemma scenario_same_place:
  "overlaps (model_at ''a'' (0, 0, 0) (1, 1, 1)) (model_at ''b'' (0, 0, 0) (1, 1, 1))"
  by (simp add: overlaps_def intersectsBox_def modelBox_def setFromCenterAndSize_def
      multiply_def model_at_def Let_def)

lemma scenario_far_apart:
  "\<not> overlaps (model_at ''a'' (- 5, 0, 0) (1, 1, 1)) (model_at ''b'' (5, 0, 0) (1, 1, 1))"
  by (simp add: overlaps_def intersectsBox_def modelBox_def setFromCenterAndSize_def
      multiply_def model_at_def Let_def)

section \<open>The map of the overlap detector\<close>

lemma dom_fold_init:
  "dom (fold (\<lambda>model info. info(model_id model \<mapsto> v)) ms info0) =
   dom info0 \<union> model_id ` set ms"
  by (induction ms arbitrary: info0) auto

lemma dom_initOverlapInfo: "dom (initOverlapInfo ms) = model_id ` set ms"
  by (simp add: initOverlapInfo_def dom_fold_init)

lemma dom_markOverlap: "dom (markOverlap a b info) = dom info"
  by (auto simp: markOverlap_def split: option.splits)

lemma dom_innerLoop: "dom (innerLoop m rest info) = dom info"
  by (induction rest arbitrary: info) (simp_all add: dom_markOverlap)

lemma dom_outerLoop: "dom (outerLoop ms info) = dom info"
  by (induction ms arbitrary: info) (simp_all add: dom_innerLoop)

text \<open>
  For a registry of two records with different ids the map gives both records the
  result of the pair test and each the other as its partner.
\<close>

lemma overlapEffect_pair:
  assumes "model_id a \<noteq> model_id b"
  shows "overlapInfoFor (overlapEffect [a, b] prev) a =
           \<lparr> isOverlapping = overlaps a b,
             overlappingWith = (if overlaps a b then [model_id b] else []) \<rparr>"
    and "overlapInfoFor (overlapEffect [a, b] prev) b =
           \<lparr> isOverlapping = overlaps a b,
             overlappingWith = (if overlaps a b then [model_id a] else []) \<rparr>"
  using assms
  by (auto simp: overlapEffect_def overlapInfoFor_def initOverlapInfo_def markOverlap_def)

lemma overlapEffect_short: "length ms < 2 \<Longrightarrow> overlapEffect ms info = info"
  by (simp add: overlapEffect_def)

lemma overlapEffects_short:
  "\<forall>ms \<in> set mss. length ms < 2 \<Longrightarrow> overlapEffects mss info = info"
  by (induction mss arbitrary: info) (simp_all add: overlapEffect_short)

text \<open>
  C6, as the code has it. With fewer than two records the effect returns before it
  builds a map or compares anything. From the initial state \<^verbatim>\<open>{}\<close>, as long as
  every registry seen has fewer than two records, the map is empty and no model is
  rendered as overlapping.
\<close>

theorem overlapEffect_fewer_than_two:
  "(\<forall>ms \<in> set mss. length ms < 2) \<longrightarrow>
     overlapEffects mss Map.empty = Map.empty
     \<and> \<not> isOverlapping (overlapInfoFor (overlapEffects mss Map.empty) m)"
  by (simp add: overlapEffects_short overlapInfoFor_def)

theorem overlapEffect_fewer_than_two_witness:
  "length [model_at ''a'' (0, 0, 0) (1, 1, 1)] < 2
   \<and> length ([] :: ModelData list) < 2
   \<and> overlapEffects [[model_at ''a'' (0, 0, 0) (1, 1, 1)]] Map.empty = Map.empty
   \<and> overlapEffects [[], [model_at ''a'' (0, 0, 0) (1, 1, 1)]] Map.empty = Map.empty
   \<and> \<not> isOverlapping (overlapInfoFor
          (overlapEffects [[], [model_at ''a'' (0, 0, 0) (1, 1, 1)]] Map.empty)
          (model_at ''a'' (0, 0, 0) (1, 1, 1)))"
  using overlapEffect_fewer_than_two
    [of "[[model_at ''a'' (0, 0, 0) (1, 1, 1)]]" "model_at ''a'' (0, 0, 0) (1, 1, 1)"]
    overlapEffect_fewer_than_two
    [of "[[], [model_at ''a'' (0, 0, 0) (1, 1, 1)]]" "model_at ''a'' (0, 0, 0) (1, 1, 1)"]
  by (simp add: overlapInfoFor_def)

text \<open>
  The effect does not empty the map: it leaves the state as it was. When a registry
  of two overlapping records is followed by a registry of one, the entry of the
  remaining record still says that it overlaps, and it is rendered so.
\<close>

theorem overlapEffect_stale_counterexample:
  "length [model_at ''a'' (0, 0, 0) (1, 1, 1)] < 2
   \<and> overlapEffects
        [[model_at ''a'' (0, 0, 0) (1, 1, 1), model_at ''b'' (0, 0, 0) (1, 1, 1)],
         [model_at ''a'' (0, 0, 0) (1, 1, 1)]] Map.empty ''a'' =
       Some \<lparr> isOverlapping = True, overlappingWith = [''b''] \<rparr>
   \<and> isOverlapping (overlapInfoFor
        (overlapEffects
          [[model_at ''a'' (0, 0, 0) (1, 1, 1), model_at ''b'' (0, 0, 0) (1, 1, 1)],
           [model_at ''a'' (0, 0, 0) (1, 1, 1)]] Map.empty)
        (model_at ''a'' (0, 0, 0) (1, 1, 1)))"
  by (simp add: overlapEffect_def overlapInfoFor_def initOverlapInfo_def markOverlap_def
      overlaps_def intersectsBox_def modelBox_def setFromCenterAndSize_def multiply_def
      model_at_def Let_def)

section \<open>Dragging\<close>

text \<open>
  One update of the position reaches the record the handler was called with, and
  changes its position only.
\<close>

lemma sendUpdate_position:
  assumes "k < length (models st)"
  shows "length (models (sendUpdate (Some (model_id (models st ! k), no_updates\<lparr>p_position := Some p\<rparr>)) st))
           = length (models st)"
    and "models (sendUpdate (Some (model_id (models st ! k), no_updates\<lparr>p_position := Some p\<rparr>)) st) ! k
           = (models st ! k)\<lparr>position := p\<rparr>"
  using assms
  by (simp_all add: sendUpdate_def handleUpdateModel_def updateModels_def spread_def no_updates_def)

lemma dragGesture_anchor:
  assumes step: "\<And>data mv t. selected data \<Longrightarrow> (mv, t) \<in> set events \<Longrightarrow>
      onDrag data mv t (Some a) =
        (Some (model_id data, no_updates\<lparr>p_position := Some (g mv)\<rparr>), a)"
    and "k < length (models st)" and "selected (models st ! k)" and "events \<noteq> []"
  shows "models (dragGesture onDrag k events (Some a) st) ! k =
           (models st ! k)\<lparr>position := g (fst (last events))\<rparr>"
  using assms
proof (induction events arbitrary: st)
  case Nil
  then show ?case by simp
next
  case (Cons e events)
  obtain mv t where e: "e = (mv, t)" by (cases e)
  let ?st' = "sendUpdate (Some (model_id (models st ! k), no_updates\<lparr>p_position := Some (g mv)\<rparr>)) st"
  have on: "onDrag (models st ! k) mv t (Some a) =
      (Some (model_id (models st ! k), no_updates\<lparr>p_position := Some (g mv)\<rparr>), a)"
    using Cons.prems(1) [of "models st ! k" mv t] Cons.prems(3) e by simp
  have run: "dragGesture onDrag k (e # events) (Some a) st = dragGesture onDrag k events (Some a) ?st'"
    using Cons.prems(2) on e by simp
  have len: "k < length (models ?st')" and rec: "models ?st' ! k = (models st ! k)\<lparr>position := g mv\<rparr>"
    using sendUpdate_position [OF Cons.prems(2)] Cons.prems(2) by simp_all
  show ?case
  proof (cases "events = []")
    case True
    with run rec e show ?thesis by simp
  next
    case False
    have "models (dragGesture onDrag k events (Some a) ?st') ! k =
           (models ?st' ! k)\<lparr>position := g (fst (last events))\<rparr>"
    proof (rule Cons.IH)
      show "onDrag data mv t (Some a) =
        (Some (model_id data, no_updates\<lparr>p_position := Some (g mv)\<rparr>), a)"
        if "selected data" "(mv, t) \<in> set events" for data mv t
        using that Cons.prems(1) by simp
      show "k < length (models ?st')" by (rule len)
      show "selected (models ?st' ! k)" using rec Cons.prems(3) by simp
      show "events \<noteq> []" by (rule False)
    qed
    with run rec False show ?thesis by simp
  qed
qed


lemma dragGesture_first:
  assumes "\<And>data mv t. onDrag data mv t None = onDrag data mv t (Some (memoOrDefault data None))"
    and "k < length (models st)"
  shows "dragGesture onDrag k events None st =
         dragGesture onDrag k events (Some (memoOrDefault (models st ! k) None)) st"
proof (cases events)
  case Nil
  then show ?thesis by simp
next
  case (Cons e es)
  obtain mv t where "e = (mv, t)" by (cases e)
  with Cons assms show ?thesis by simp
qed

lemma onDrag_v1_first:
  "onDrag_v1 data mv t None = onDrag_v1 data mv t (Some (memoOrDefault data None))"
  by (simp add: onDrag_v1_def memoOrDefault_def)

lemma onDrag_v2_first:
  "onDrag_v2 data mv t None = onDrag_v2 data mv t (Some (memoOrDefault data None))"
  by (simp add: onDrag_v2_def memoOrDefault_def)

lemma clamp_is_spec_clamp:
  "max BOUNDARY_MIN (min BOUNDARY_MAX v) = spec_clamp (- 3) 3 v"
  by (simp add: BOUNDARY_MIN_def BOUNDARY_MAX_def GRID_SIZE_def spec_clamp_def)

lemma onDrag_v2_one:
  "selected data \<Longrightarrow>
   onDrag_v2 data mv 1 (Some a) =
     (Some (model_id data, no_updates\<lparr>p_position :=
        Some (spec_clamp (- 3) 3 (vx (initialPos a) + fst mv * 0.05), vy (initialPos a),
              spec_clamp (- 3) 3 (vz (initialPos a) + snd mv * 0.05))\<rparr>), a)"
  by (simp add: onDrag_v2_def memoOrDefault_def clamp_is_spec_clamp)

lemma onDrag_v1_one:
  "selected data \<Longrightarrow>
   onDrag_v1 data mv 1 (Some a) =
     (Some (model_id data, no_updates\<lparr>p_position :=
        Some (vx (initialPos a) + fst mv * 0.05, vy (initialPos a),
              vz (initialPos a) + snd mv * 0.05)\<rparr>), a)"
  by (simp add: onDrag_v1_def memoOrDefault_def)

lemma onDrag_v1_two:
  "selected data \<Longrightarrow>
   onDrag_v1 data mv 2 (Some a) =
     (Some (model_id data, no_updates\<lparr>p_position :=
        Some (vx (initialPos a) + fst mv * 0.05, vy (initialPos a) + snd mv * 0.05,
              vz (initialPos a))\<rparr>), a)"
  by (simp add: onDrag_v1_def memoOrDefault_def)

text \<open>
  C2, as the code has it. A single-contact drag of a selected model leaves the
  model at \<open>(x0 + dx * s, y0, z0 + dy * s)\<close>: \<open>(x0, y0, z0)\<close> is the position at
  the first event of the gesture, \<open>(dx, dy)\<close> the accumulated movement of the
  latest event and \<open>s = 0.05\<close>. The second variant clamps X and Z to \<open>[-3, 3]\<close>;
  the first variant, the one that also handles two-contact drags, applies no
  bound. Y stays the Y of the anchor and no other field changes.
\<close>

theorem single_contact_drag:
  assumes "k < length (models st)" and "selected (models st ! k)"
    and "events \<noteq> []" and "\<forall>e \<in> set events. snd e = 1"
    and "position (models st ! k) = (x0, y0, z0)" and "fst (last events) = (dx, dy)"
  shows "models (dragGesture onDrag_v2 k events None st) ! k =
           (models st ! k)\<lparr>position :=
              (spec_clamp (- 3) 3 (x0 + dx * 0.05), y0, spec_clamp (- 3) 3 (z0 + dy * 0.05))\<rparr>
         \<and> models (dragGesture onDrag_v1 k events None st) ! k =
           (models st ! k)\<lparr>position := (x0 + dx * 0.05, y0, z0 + dy * 0.05)\<rparr>"
proof -
  define a where "a = memoOrDefault (models st ! k) None"
  have a: "initialPos a = (x0, y0, z0)"
    using assms(5) by (simp add: a_def memoOrDefault_def)
  have one: "t = 1" if "(mv, t) \<in> set events" for mv t
    using that assms(4) by force
  have step2: "onDrag_v2 data mv t (Some a) =
      (Some (model_id data, no_updates\<lparr>p_position :=
         Some (spec_clamp (- 3) 3 (vx (initialPos a) + fst mv * 0.05), vy (initialPos a),
               spec_clamp (- 3) 3 (vz (initialPos a) + snd mv * 0.05))\<rparr>), a)"
    if "selected data" "(mv, t) \<in> set events" for data mv t
    using onDrag_v2_one [OF that(1)] one [OF that(2)] by simp
  have step1: "onDrag_v1 data mv t (Some a) =
      (Some (model_id data, no_updates\<lparr>p_position :=
         Some (vx (initialPos a) + fst mv * 0.05, vy (initialPos a),
               vz (initialPos a) + snd mv * 0.05)\<rparr>), a)"
    if "selected data" "(mv, t) \<in> set events" for data mv t
    using onDrag_v1_one [OF that(1)] one [OF that(2)] by simp
  have v2: "models (dragGesture onDrag_v2 k events (Some a) st) ! k =
        (models st ! k)\<lparr>position :=
          (spec_clamp (- 3) 3 (vx (initialPos a) + fst (fst (last events)) * 0.05),
           vy (initialPos a),
           spec_clamp (- 3) 3 (vz (initialPos a) + snd (fst (last events)) * 0.05))\<rparr>"
    by (rule dragGesture_anchor [where onDrag = onDrag_v2 and a = a and events = events
          and g = "\<lambda>mv.
          (spec_clamp (- 3) 3 (vx (initialPos a) + fst mv * 0.05), vy (initialPos a),
           spec_clamp (- 3) 3 (vz (initialPos a) + snd mv * 0.05))",
          OF step2 assms(1) assms(2) assms(3)])
  have v1: "models (dragGesture onDrag_v1 k events (Some a) st) ! k =
        (models st ! k)\<lparr>position :=
          (vx (initialPos a) + fst (fst (last events)) * 0.05, vy (initialPos a),
           vz (initialPos a) + snd (fst (last events)) * 0.05)\<rparr>"
    by (rule dragGesture_anchor [where onDrag = onDrag_v1 and a = a and events = events
          and g = "\<lambda>mv.
          (vx (initialPos a) + fst mv * 0.05, vy (initialPos a),
           vz (initialPos a) + snd mv * 0.05)",
          OF step1 assms(1) assms(2) assms(3)])
  from v1 v2 a assms(6) show ?thesis
    by (simp add: dragGesture_first [OF onDrag_v2_first assms(1)]
        dragGesture_first [OF onDrag_v1_first assms(1)] a_def)
qed

theorem single_contact_drag_witness:
  "(0::nat) < length (models (handleSelectModel (Some ''model-1'') (initial_state [] [])))
   \<and> selected (models (handleSelectModel (Some ''model-1'') (initial_state [] [])) ! 0)
   \<and> position (models (handleSelectModel (Some ''model-1'') (initial_state [] [])) ! 0) =
       (- 3333 / 1000, 1, 0)
   \<and> position (models (dragGesture onDrag_v2 0 [((10, 4), 1), ((200, - 100), 1)] None
        (handleSelectModel (Some ''model-1'') (initial_state [] []))) ! 0) = (3, 1, - 3)
   \<and> position (models (dragGesture onDrag_v1 0 [((10, 4), 1), ((200, - 100), 1)] None
        (handleSelectModel (Some ''model-1'') (initial_state [] []))) ! 0) =
       (6667 / 1000, 1, - 5)"
  using single_contact_drag
    [of 0 "handleSelectModel (Some ''model-1'') (initial_state [] [])"
        "[((10, 4), 1), ((200, - 100), 1)]" "- 3333 / 1000" 1 0 200 "- 100"]
  by (simp add: handleSelectModel_def initial_state_def INITIAL_MODELS_def spec_clamp_def)

text \<open>
  In the first variant a single-contact drag far to the right takes the model
  beyond the ground: X ends at \<open>6.667\<close>, above the bound \<open>3\<close>.
\<close>

theorem single_contact_drag_unclamped_counterexample:
  "position (models (dragGesture onDrag_v1 0 [((200, 0), 1)] None
      (handleSelectModel (Some ''model-1'') (initial_state [] []))) ! 0) = (6667 / 1000, 1, 0)
   \<and> \<not> (6667 / 1000 \<le> BOUNDARY_MAX)"
  by (simp add: handleSelectModel_def initial_state_def INITIAL_MODELS_def onDrag_v1_def
      memoOrDefault_def sendUpdate_def handleUpdateModel_def updateModels_def spread_def
      no_updates_def BOUNDARY_MAX_def GRID_SIZE_def)

text \<open>
  C9. In the first variant, the one that handles two-contact drags, a two-contact
  drag of a selected model leaves it at \<open>(x0 + dx * s, y0 + dy * s, z0)\<close> relative
  to the position at the first event of the gesture: the formula is exact, so no
  axis is clamped, and Z is the Z of the anchor. No other field changes.
\<close>

theorem two_contact_drag:
  assumes "k < length (models st)" and "selected (models st ! k)"
    and "events \<noteq> []" and "\<forall>e \<in> set events. snd e = 2"
    and "position (models st ! k) = (x0, y0, z0)" and "fst (last events) = (dx, dy)"
  shows "models (dragGesture onDrag_v1 k events None st) ! k =
           (models st ! k)\<lparr>position := (x0 + dx * 0.05, y0 + dy * 0.05, z0)\<rparr>"
proof -
  define a where "a = memoOrDefault (models st ! k) None"
  have a: "initialPos a = (x0, y0, z0)"
    using assms(5) by (simp add: a_def memoOrDefault_def)
  have two: "t = 2" if "(mv, t) \<in> set events" for mv t
    using that assms(4) by force
  have step: "onDrag_v1 data mv t (Some a) =
      (Some (model_id data, no_updates\<lparr>p_position :=
         Some (vx (initialPos a) + fst mv * 0.05, vy (initialPos a) + snd mv * 0.05,
               vz (initialPos a))\<rparr>), a)"
    if "selected data" "(mv, t) \<in> set events" for data mv t
    using onDrag_v1_two [OF that(1)] two [OF that(2)] by simp
  have "models (dragGesture onDrag_v1 k events (Some a) st) ! k =
        (models st ! k)\<lparr>position :=
          (vx (initialPos a) + fst (fst (last events)) * 0.05,
           vy (initialPos a) + snd (fst (last events)) * 0.05, vz (initialPos a))\<rparr>"
    by (rule dragGesture_anchor [where onDrag = onDrag_v1 and a = a and events = events
          and g = "\<lambda>mv.
          (vx (initialPos a) + fst mv * 0.05, vy (initialPos a) + snd mv * 0.05,
           vz (initialPos a))",
          OF step assms(1) assms(2) assms(3)])
  with a assms(6) show ?thesis
    by (simp add: dragGesture_first [OF onDrag_v1_first assms(1)] a_def)
qed

theorem two_contact_drag_witness:
  "(0::nat) < length (models (handleSelectModel (Some ''model-1'') (initial_state [] [])))
   \<and> selected (models (handleSelectModel (Some ''model-1'') (initial_state [] [])) ! 0)
   \<and> position (models (handleSelectModel (Some ''model-1'') (initial_state [] [])) ! 0) =
       (- 3333 / 1000, 1, 0)
   \<and> position (models (dragGesture onDrag_v1 0 [((20, 10), 2), ((200, 100), 2)] None
        (handleSelectModel (Some ''model-1'') (initial_state [] []))) ! 0) =
       (6667 / 1000, 6, 0)"
  using two_contact_drag
    [of 0 "handleSelectModel (Some ''model-1'') (initial_state [] [])"
        "[((20, 10), 2), ((200, 100), 2)]" "- 3333 / 1000" 1 0 200 100]
  by (simp add: handleSelectModel_def initial_state_def INITIAL_MODELS_def)

text \<open>The second variant leaves a two-contact drag to the camera controls.\<close>

lemma onDrag_v2_two_contacts:
  "touches \<noteq> 1 \<Longrightarrow> fst (onDrag_v2 data movement touches memo) = None"
  by (simp add: onDrag_v2_def)

section \<open>Smooth rotation\<close>

lemma useFrame_components:
  "vx (useFrame d c t) = vx t + (vx c - vx t) * (1 - 5 * d)"
  "vy (useFrame d c t) = vy t + (vy c - vy t) * (1 - 5 * d)"
  "vz (useFrame d c t) = vz t + (vz c - vz t) * (1 - 5 * d)"
  by (cases c; cases t; simp add: useFrame_def Let_def algebra_simps)+

lemma vec3_eq_iff: "(a = b) = (vx a = vx b \<and> vy a = vy b \<and> vz a = vz b)"
  by (cases a; cases b) simp

lemma useFrame_step:
  "c \<noteq> t \<Longrightarrow> useFrame d c t =
     (vx c + (vx t - vx c) * (5 * d), vy c + (vy t - vy c) * (5 * d), vz c + (vz t - vz c) * (5 * d))"
  by (auto simp: vec3_eq_iff [of c t] useFrame_def Let_def)

lemma useFrame_rest: "useFrame d t t = t"
  by (simp add: useFrame_def)

lemma frames_rest: "frames ds t t = t"
  by (induction ds) (simp_all add: useFrame_rest)

lemma useFrame_angle_at_target:
  "vx c = vx t \<Longrightarrow> vx (useFrame d c t) = vx t"
  "vy c = vy t \<Longrightarrow> vy (useFrame d c t) = vy t"
  "vz c = vz t \<Longrightarrow> vz (useFrame d c t) = vz t"
  by (simp_all add: useFrame_components)

lemma frames_vx: "vx (frames (replicate n d) c t) = vx t + (vx c - vx t) * (1 - 5 * d) ^ n"
  by (induction n arbitrary: c) (simp_all add: useFrame_components)

lemma geometric_converges:
  assumes "0 < d" and "d < 2 / 5"
  shows "(\<lambda>n. b + a * (1 - 5 * d) ^ n) \<longlonglongrightarrow> (b :: real)"
proof -
  have "\<bar>1 - 5 * d\<bar> < 1"
    using assms by (simp add: abs_less_iff)
  then have "(\<lambda>n. (1 - 5 * d) ^ n) \<longlonglongrightarrow> 0"
    by (rule LIMSEQ_abs_realpow_zero2)
  then have "(\<lambda>n. a * (1 - 5 * d) ^ n) \<longlonglongrightarrow> a * 0"
    by (rule tendsto_mult_left)
  then have "(\<lambda>n. b + a * (1 - 5 * d) ^ n) \<longlonglongrightarrow> b + a * 0"
    by (rule tendsto_add [OF tendsto_const])
  then show ?thesis
    by simp
qed

lemma frames_vx_converges:
  assumes "0 < d" and "d < 2 / 5"
  shows "(\<lambda>n. vx (frames (replicate n d) c t)) \<longlonglongrightarrow> vx t"
  by (simp add: frames_vx geometric_converges [OF assms])

text \<open>
  C5, as the code has it. On a frame where the live rotation differs from the
  target, each of the three angles is advanced by
  \<open>current += (target - current) * 5 * delta\<close>, so an angle that is already at its
  target keeps its value while the others move. On a frame where the live
  rotation equals the target nothing is written, and from then on the rotation
  stays at the target. There is no snap to the target. Nothing is said on whether
  or when the target is reached: the next theorem shows that it can be reached
  in one frame.
\<close>

theorem useFrame_easing:
  "(currentRotation \<noteq> targetRotation \<longrightarrow>
      useFrame delta currentRotation targetRotation =
        (vx currentRotation + (vx targetRotation - vx currentRotation) * (5 * delta),
         vy currentRotation + (vy targetRotation - vy currentRotation) * (5 * delta),
         vz currentRotation + (vz targetRotation - vz currentRotation) * (5 * delta)))
   \<and> (vx currentRotation = vx targetRotation \<longrightarrow>
        vx (useFrame delta currentRotation targetRotation) = vx targetRotation)
   \<and> (vy currentRotation = vy targetRotation \<longrightarrow>
        vy (useFrame delta currentRotation targetRotation) = vy targetRotation)
   \<and> (vz currentRotation = vz targetRotation \<longrightarrow>
        vz (useFrame delta currentRotation targetRotation) = vz targetRotation)
   \<and> useFrame delta targetRotation targetRotation = targetRotation
   \<and> frames deltas targetRotation targetRotation = targetRotation"
  by (simp add: useFrame_step useFrame_rest frames_rest useFrame_angle_at_target)

theorem useFrame_easing_witness:
  "((0, 0, 0) :: vec3) \<noteq> (1, 0, 0)
   \<and> useFrame (1 / 8) (0, 0, 0) (1, 0, 0) = (5 / 8, 0, 0)
   \<and> vy ((0, 0, 0) :: vec3) = vy ((1, 0, 0) :: vec3)
   \<and> vy (useFrame (1 / 8) (0, 0, 0) (1, 0, 0)) = 0
   \<and> frames [1 / 8, 1 / 8] (0, 0, 0) (1, 0, 0) = (55 / 64, 0, 0)
   \<and> frames [1 / 8, 1 / 8] (1, 0, 0) (1, 0, 0) = (1, 0, 0)"
  using useFrame_easing [of "(0, 0, 0)" "(1, 0, 0)" "1 / 8" "[1 / 8, 1 / 8]"]
  by (simp add: useFrame_def Let_def)

text \<open>
  With an elapsed time of a fifth of a second the ease factor \<open>5 * delta\<close> is \<open>1\<close>
  (in doubles too: \<^verbatim>\<open>5 * 0.2 === 1\<close>), and one frame takes the angle \<open>0\<close> to the
  target \<open>1\<close> exactly: a nonzero initial difference, and the target reached after
  one frame.
\<close>

theorem useFrame_lands_counterexample:
  "((0, 0, 0) :: vec3) \<noteq> (1, 0, 0)
   \<and> frames [1 / 5] (0, 0, 0) (1, 0, 0) = (1, 0, 0)"
  by (simp add: useFrame_def Let_def)

section \<open>Rotating by the control panel\<close>

lemma panelClick_rotate_X:
  assumes "k < length (models st)"
  shows "length (models (panelClick (rotateModel X) k st)) = length (models st)"
    and "models (panelClick (rotateModel X) k st) ! k =
         (models st ! k)\<lparr>rotation := (vx (rotation (models st ! k)) + pi / 2,
            vy (rotation (models st ! k)), vz (rotation (models st ! k)))\<rparr>"
  using assms
  by (simp_all add: panelClick_def rotateModel_def handleUpdateModel_def updateModels_def
      spread_def no_updates_def Let_def)


text \<open>
  C4, as the code has it. Each rotate-90-degrees-on-X command adds \<open>pi / 2\<close> to the
  X angle of the record. Issued twice, the record holds \<open>x0 + pi\<close> on X, with Y and
  Z and every other field as before; this is the target of the smoothing, and with
  a steady frame time below \<open>2/5\<close> the live X angle converges to it from whatever it
  was. The X angle ends half a turn away from its original value.
\<close>

theorem rotate_x_twice:
  assumes "k < length (models st)" and "rotation (models st ! k) = (x0, y0, z0)"
  shows "models (panelClick (rotateModel X) k (panelClick (rotateModel X) k st)) ! k =
           (models st ! k)\<lparr>rotation := (x0 + pi, y0, z0)\<rparr>
     \<and> (0 < delta \<and> delta < 2 / 5 \<longrightarrow>
          (\<lambda>n. vx (frames (replicate n delta) currentRotation (x0 + pi, y0, z0)))
            \<longlonglongrightarrow> x0 + pi)"
proof -
  let ?st1 = "panelClick (rotateModel X) k st"
  have k1: "k < length (models ?st1)"
    using panelClick_rotate_X(1) [OF assms(1)] assms(1) by simp
  have "models (panelClick (rotateModel X) k ?st1) ! k =
        (models st ! k)\<lparr>rotation := (x0 + pi, y0, z0)\<rparr>"
    using assms(2)
    by (simp add: panelClick_rotate_X(2) [OF k1] panelClick_rotate_X(2) [OF assms(1)])
  moreover have "(\<lambda>n. vx (frames (replicate n delta) currentRotation (x0 + pi, y0, z0)))
            \<longlonglongrightarrow> x0 + pi" if "0 < delta" "delta < 2 / 5"
    using frames_vx_converges [OF that, of currentRotation "(x0 + pi, y0, z0)"] by simp
  ultimately show ?thesis
    by simp
qed

theorem rotate_x_twice_witness:
  "(0::nat) < length (models (initial_state [] []))
   \<and> rotation (models (initial_state [] []) ! 0) = (0, 0, 0)
   \<and> rotation (models (panelClick (rotateModel X) 0
        (panelClick (rotateModel X) 0 (initial_state [] []))) ! 0) = (pi, 0, 0)
   \<and> (\<lambda>n. vx (frames (replicate n (1 / 60)) (0, 0, 0) (pi, 0, 0))) \<longlonglongrightarrow> pi"
  using rotate_x_twice [of 0 "initial_state [] []" 0 0 0 "1 / 60" "(0, 0, 0)"]
  by (simp add: initial_state_def INITIAL_MODELS_def)

text \<open>
  From the initial registry two commands take the X angle of the first model from
  \<open>0\<close> to \<open>pi\<close>: more than two radians away, and not the same angle modulo a full
  turn either, since the cosines differ.
\<close>

theorem rotate_x_twice_counterexample:
  "vx (rotation (models (initial_state [] []) ! 0)) = 0
   \<and> vx (rotation (models (panelClick (rotateModel X) 0
        (panelClick (rotateModel X) 0 (initial_state [] []))) ! 0)) = pi
   \<and> (\<lambda>n. vx (frames (replicate n (1 / 60)) (0, 0, 0) (pi, 0, 0))) \<longlonglongrightarrow> pi
   \<and> 2 \<le> pi - 0
   \<and> cos pi = - 1 \<and> cos 0 = (1::real)"
  using pi_ge_two frames_vx_converges [of "1 / 60" "(0, 0, 0)" "(pi, 0, 0)"]
  by (simp add: initial_state_def INITIAL_MODELS_def panelClick_def rotateModel_def
      handleUpdateModel_def updateModels_def spread_def no_updates_def Let_def)

text \<open>Four commands make a full turn.\<close>

lemma rotate_x_four_times:
  assumes "k < length (models st)" and "rotation (models st ! k) = (x0, y0, z0)"
  shows "models (panelClick (rotateModel X) k (panelClick (rotateModel X) k
           (panelClick (rotateModel X) k (panelClick (rotateModel X) k st)))) ! k =
         (models st ! k)\<lparr>rotation := (x0 + 2 * pi, y0, z0)\<rparr>"
proof -
  let ?st1 = "panelClick (rotateModel X) k st"
  let ?st2 = "panelClick (rotateModel X) k ?st1"
  let ?st3 = "panelClick (rotateModel X) k ?st2"
  have k1: "k < length (models ?st1)"
    using panelClick_rotate_X(1) [OF assms(1)] assms(1) by simp
  have k2: "k < length (models ?st2)"
    using panelClick_rotate_X(1) [OF k1] k1 by simp
  have k3: "k < length (models ?st3)"
    using panelClick_rotate_X(1) [OF k2] k2 by simp
  show ?thesis
    using assms(2)
    by (simp add: panelClick_rotate_X(2) [OF k3] panelClick_rotate_X(2) [OF k2]
        panelClick_rotate_X(2) [OF k1] panelClick_rotate_X(2) [OF assms(1)])
qed

section \<open>Visibility\<close>

lemma map_if_key_list_update:
  assumes "distinct (map f xs)" and "k < length xs"
  shows "map (\<lambda>x. if f x = f (xs ! k) then g x else x) xs = xs[k := g (xs ! k)]"
proof (rule nth_equalityI)
  show "length (map (\<lambda>x. if f x = f (xs ! k) then g x else x) xs) = length (xs[k := g (xs ! k)])"
    by simp
next
  fix j
  assume "j < length (map (\<lambda>x. if f x = f (xs ! k) then g x else x) xs)"
  then have j: "j < length xs" by simp
  have "(f (xs ! j) = f (xs ! k)) = (j = k)"
    using nth_eq_iff_index_eq [OF assms(1), of j k] j assms(2) by simp
  with j show "map (\<lambda>x. if f x = f (xs ! k) then g x else x) xs ! j = xs[k := g (xs ! k)] ! j"
    by (simp add: nth_list_update)
qed

lemma spread_visible: "spread m (no_updates\<lparr>p_visible := Some b\<rparr>) = m\<lparr>visible := b\<rparr>"
  by (simp add: spread_def no_updates_def)

lemma panelClick_toggleVisibility:
  assumes "distinct (map model_id (models st))" and "k < length (models st)"
  shows "panelClick toggleVisibility k st =
         st\<lparr>models := (models st)[k := (models st ! k)\<lparr>visible := \<not> visible (models st ! k)\<rparr>]\<rparr>"
  using assms map_if_key_list_update [OF assms, of "\<lambda>m. m\<lparr>visible := \<not> visible (models st ! k)\<rparr>"]
  by (simp add: panelClick_def toggleVisibility_def handleUpdateModel_def updateModels_def
      spread_visible cong: if_cong)

lemma hidden_v1:
  "\<not> visible data \<Longrightarrow> BuildingModelContent_v1 data info scene store cur \<noteq> Inr (Some r)"
  by (simp add: BuildingModelContent_v1_def split: sum.splits)

lemma hidden_v2:
  "\<not> visible data \<Longrightarrow> BuildingModelContent_v2 data info scene store cur \<noteq> Inr (Some r)"
  by (simp add: BuildingModelContent_v2_def split: sum.splits)

lemma panelClick_toggle_models:
  assumes "k < length (models st)"
  shows "models (panelClick toggleVisibility k st) =
         map (\<lambda>m. if model_id m = model_id (models st ! k)
                  then m\<lparr>visible := \<not> visible (models st ! k)\<rparr> else m) (models st)"
  using assms
  by (simp add: panelClick_def toggleVisibility_def handleUpdateModel_def updateModels_def
      spread_visible cong: if_cong)

lemma panelClick_toggle_selectedId:
  "selectedId (panelClick toggleVisibility k st) = selectedId st"
  by (simp add: panelClick_def toggleVisibility_def handleUpdateModel_def)

text \<open>
  C7. The visibility button of the panel of a model replaces the record of the
  model by the same record with the flag \<open>visible\<close> negated. No other field of any
  record changes (position, rotation, scale, selection and the rest), nor the
  selected id. Pressed twice, it gives back the record exactly as it was, position
  and rotation included. When the ids of the registry are unique, no other record
  changes at all and two presses give back the whole registry. A record whose
  flag is false is not rendered, in either variant.
\<close>

theorem toggleVisibility_frame:
  assumes "k < length (models st)"
  shows "models (panelClick toggleVisibility k st) ! k =
           (models st ! k)\<lparr>visible := \<not> visible (models st ! k)\<rparr>
     \<and> map (\<lambda>m. m\<lparr>visible := v\<rparr>) (models (panelClick toggleVisibility k st)) =
         map (\<lambda>m. m\<lparr>visible := v\<rparr>) (models st)
     \<and> selectedId (panelClick toggleVisibility k st) = selectedId st
     \<and> models (panelClick toggleVisibility k (panelClick toggleVisibility k st)) ! k =
         models st ! k
     \<and> (distinct (map model_id (models st)) \<longrightarrow>
          panelClick toggleVisibility k st =
            st\<lparr>models := (models st)[k := (models st ! k)\<lparr>visible := \<not> visible (models st ! k)\<rparr>]\<rparr>
          \<and> panelClick toggleVisibility k (panelClick toggleVisibility k st) = st)
     \<and> (\<not> visible data \<longrightarrow>
          BuildingModelContent_v1 data overlapInfo (scene :: 'g Scene) store currentRotation \<noteq>
            Inr (Some r)
          \<and> BuildingModelContent_v2 data overlapInfo scene store currentRotation \<noteq> Inr (Some r))"
proof -
  let ?st1 = "panelClick toggleVisibility k st"
  have m1: "models ?st1 =
         map (\<lambda>m. if model_id m = model_id (models st ! k)
                  then m\<lparr>visible := \<not> visible (models st ! k)\<rparr> else m) (models st)"
    by (rule panelClick_toggle_models [OF assms])
  have a: "models ?st1 ! k = (models st ! k)\<lparr>visible := \<not> visible (models st ! k)\<rparr>"
    using assms by (simp add: m1)
  have b: "map (\<lambda>m. m\<lparr>visible := v\<rparr>) (models ?st1) = map (\<lambda>m. m\<lparr>visible := v\<rparr>) (models st)"
    by (simp add: m1 comp_def cong: if_cong)
  have k1: "k < length (models ?st1)"
    using assms by (simp add: m1)
  have c: "models (panelClick toggleVisibility k ?st1) ! k = models st ! k"
    using assms by (simp add: panelClick_toggle_models [OF k1] a) (simp add: m1)
  have d: "?st1 = st\<lparr>models := (models st)[k := (models st ! k)\<lparr>visible := \<not> visible (models st ! k)\<rparr>]\<rparr>
      \<and> panelClick toggleVisibility k ?st1 = st"
    if dist: "distinct (map model_id (models st))"
  proof -
    have one: "?st1 =
        st\<lparr>models := (models st)[k := (models st ! k)\<lparr>visible := \<not> visible (models st ! k)\<rparr>]\<rparr>"
      by (rule panelClick_toggleVisibility [OF dist assms])
    have ids: "map model_id (models ?st1) = map model_id (models st)"
      using assms by (simp add: one map_update list_update_same_conv)
    have d1: "distinct (map model_id (models ?st1))"
      using dist ids by simp
    have "panelClick toggleVisibility k ?st1 = st"
      using assms by (simp add: panelClick_toggleVisibility [OF d1 k1]) (simp add: one)
    with one show ?thesis by simp
  qed
  have e: "distinct (map model_id (models st)) \<longrightarrow>
      ?st1 = st\<lparr>models := (models st)[k := (models st ! k)\<lparr>visible := \<not> visible (models st ! k)\<rparr>]\<rparr>
      \<and> panelClick toggleVisibility k ?st1 = st"
    using d by blast
  have f: "\<not> visible data \<longrightarrow>
      BuildingModelContent_v1 data overlapInfo scene store currentRotation \<noteq> Inr (Some r)
      \<and> BuildingModelContent_v2 data overlapInfo scene store currentRotation \<noteq> Inr (Some r)"
    by (simp add: hidden_v1 hidden_v2)
  note s = panelClick_toggle_selectedId [of k st]
  show ?thesis
    by (intro conjI) (fact a, fact b, fact s, fact c, fact e, fact f)
qed

theorem toggleVisibility_frame_witness:
  "distinct (map model_id (models (initial_state [] [])))
   \<and> (0::nat) < length (models (initial_state [] []))
   \<and> map visible (models (panelClick toggleVisibility 0 (initial_state [] []))) = [False, True]
   \<and> map position (models (panelClick toggleVisibility 0 (initial_state [] []))) =
       map position (models (initial_state [] []))
   \<and> panelClick toggleVisibility 0 (panelClick toggleVisibility 0 (initial_state [] [])) =
       initial_state [] []
   \<and> \<not> visible (models (panelClick toggleVisibility 0 (initial_state [] [])) ! 0)
   \<and> BuildingModelContent_v1 (models (panelClick toggleVisibility 0 (initial_state [] [])) ! 0)
        \<lparr> isOverlapping = False, overlappingWith = [] \<rparr> scene0 store0 (0, 0, 0) = Inr None"
  using toggleVisibility_frame [where st = "initial_state [] []" and k = 0 and v = True
      and data = "models (panelClick toggleVisibility 0 (initial_state [] [])) ! 0"
      and overlapInfo = "\<lparr> isOverlapping = False, overlappingWith = [] \<rparr>"
      and scene = scene0 and store = store0 and currentRotation = "(0, 0, 0)"
      and r = "\<lparr> group_position = (0, 0, 0), group_scale = (0, 0, 0),
        group_rotation = (0, 0, 0), primary = [], ghost = None \<rparr>"]
  by (simp add: initial_state_def INITIAL_MODELS_def BuildingModelContent_v1_def
      overlapClone_v1_def panelClick_def toggleVisibility_def handleUpdateModel_def
      updateModels_def spread_def no_updates_def)

section \<open>What is rendered for an overlapping model\<close>




lemma primaryChild_object:
  "fst (primaryChild solid child store) = fst (primaryChild solid' child store')"
  by (cases child) simp_all












text \<open>
  The props the memoised component renders with: those it is mounted with, then the
  new ones when \<^verbatim>\<open>data\<close> has changed and the old ones otherwise, whatever the new
  \<^verbatim>\<open>overlapInfo\<close> is.
\<close>

lemma memoProps_cases:
  "memoProps None nextProps = nextProps"
  "memoProps (Some (d, i)) (d, i') = (d, i)"
  "d \<noteq> d' \<Longrightarrow> memoProps (Some (d, i)) (d', i') = (d', i')"
  by (simp_all add: memoProps_def arePropsEqual_def)

text \<open>
  After a change of the registry a mounted model renders with its old props when
  its record is the same, and otherwise with its new record and the entry of the
  state \<^verbatim>\<open>overlapInfo\<close> as it was before the effect ran for the new registry.
\<close>

lemma sceneUpdate_seenProps:
  assumes "k < length ms" and "length (seenProps st) = length ms"
    and "seenProps st ! k = Some (d, i)"
  shows "seenProps (sceneUpdate ms st) ! k =
           Some (if d = ms ! k then (d, i)
                 else (ms ! k, overlapInfoFor (overlapInfo_state st) (ms ! k)))"
  using assms
  by (simp add: sceneUpdate_def renderModels_def memoProps_def arePropsEqual_def Let_def)




text \<open>
  Two models of one url share the materials of the scene: in the second variant
  the effect that ran last decides how the primary of both looks.
\<close>

lemma shared_materials_last_effect_wins:
  "mat_opacity (snd (primaryEffect_v2 name_reality scene0 store0) 0) = 6 / 10
   \<and> mat_opacity (snd (primaryEffect_v2 name_anchor scene0
        (snd (primaryEffect_v2 name_reality scene0 store0))) 0) = 1"
  by (simp add: scene0_def store0_def material0_def primaryEffect_v2_def writeMaterials_def
      solidMaterial_v2_def name_anchor_def name_reality_def Let_def)

end
